theory Spec2Isabelle
  imports Main
begin

chapter \<open>A server of two web search tools\<close>

text \<open>
  The server offers two tools, \<^verbatim>\<open>web_search_chat_completion\<close> and
  \<^verbatim>\<open>web_search_responses\<close>. Each checks its arguments against a schema and forwards
  them to a remote HTTP API in one request. The repository holds two versions of the
  program: index.ts (version 1.1.2), which forwards the arguments of
  \<^verbatim>\<open>web_search_responses\<close> as they are, and an earlier file (version 1.0.0), which
  reshapes the messages of a conversation into instructions and one input text.

  The theory models the schemas, the forwarding functions and the reshaping of both
  versions. The handler that picks the tool by its name, and the text form of the JSON
  that is sent and received, are outside of it.
\<close>

section \<open>JSON values\<close>

text \<open>
  The tool arguments arrive as parsed JSON and the outbound bodies leave through
  \<^verbatim>\<open>JSON.stringify\<close>. Both are modelled as JSON trees. An object is an association
  list in insertion order (a JavaScript object has no repeated key). The carrier of
  numbers is the parameter \<open>'n\<close>: the program only passes numbers through.
  A string is a list of characters; \<^verbatim>\<open>.length\<close> of the source counts its elements.
\<close>

datatype 'n json =
    JNull
  | JBool bool
  | JNum 'n
  | JStr string
  | JArr "'n json list"
  | JObj "(string \<times> 'n json) list"

text \<open>Reading the property \<open>k\<close> of a JSON tree; \<open>None\<close> is \<^verbatim>\<open>undefined\<close>.\<close>

fun obj_get :: "'n json \<Rightarrow> string \<Rightarrow> 'n json option" where
  "obj_get (JObj kvs) k = map_of kvs k"
| "obj_get _ k = None"

text \<open>
  A property whose value is \<^verbatim>\<open>undefined\<close> is left out by \<^verbatim>\<open>JSON.stringify\<close>.
\<close>

definition opt_field :: "string \<Rightarrow> ('a \<Rightarrow> 'n json) \<Rightarrow> 'a option \<Rightarrow> (string \<times> 'n json) list" where
  "opt_field k enc v = (case v of None \<Rightarrow> [] | Some x \<Rightarrow> [(k, enc x)])"

section \<open>The schema combinators (zod)\<close>

text \<open>
  A schema is run on a value that may be \<^verbatim>\<open>undefined\<close> (a missing key), at a path.
  It returns the typed value or the list of all issues, as \<^verbatim>\<open>ZodError.errors\<close> does.
\<close>

datatype path_elem = Key string | Idx nat

datatype issue_code =
    invalid_type
  | invalid_literal
  | invalid_enum_value
  | too_small
  | too_big
  | invalid_union "(path_elem list \<times> issue_code) list list"

type_synonym issue = "path_elem list \<times> issue_code"

type_synonym ('n, 'a) zod = "path_elem list \<Rightarrow> 'n json option \<Rightarrow> issue list + 'a"

definition z_string :: "('n, string) zod" where
  "z_string p v = (case v of Some (JStr s) \<Rightarrow> Inr s | _ \<Rightarrow> Inl [(p, invalid_type)])"

definition z_number :: "('n, 'n) zod" where
  "z_number p v = (case v of Some (JNum n) \<Rightarrow> Inr n | _ \<Rightarrow> Inl [(p, invalid_type)])"

definition z_boolean :: "('n, bool) zod" where
  "z_boolean p v = (case v of Some (JBool b) \<Rightarrow> Inr b | _ \<Rightarrow> Inl [(p, invalid_type)])"

text \<open>\<^verbatim>\<open>z.string().length(n)\<close>\<close>

definition z_string_length :: "nat \<Rightarrow> ('n, string) zod" where
  "z_string_length n p v =
     (case v of
        Some (JStr s) \<Rightarrow>
          (if length s > n then Inl [(p, too_big)]
           else if length s < n then Inl [(p, too_small)]
           else Inr s)
      | _ \<Rightarrow> Inl [(p, invalid_type)])"

text \<open>\<^verbatim>\<open>z.literal("...")\<close>\<close>

definition z_literal :: "string \<Rightarrow> ('n, unit) zod" where
  "z_literal l p v =
     (case v of
        Some (JStr s) \<Rightarrow> (if s = l then Inr () else Inl [(p, invalid_literal)])
      | _ \<Rightarrow> Inl [(p, invalid_literal)])"

text \<open>
  \<^verbatim>\<open>z.enum([...])\<close>: the table gives each accepted string its typed value.
\<close>

definition z_enum :: "(string \<times> 'a) list \<Rightarrow> ('n, 'a) zod" where
  "z_enum tab p v =
     (case v of
        Some (JStr s) \<Rightarrow>
          (case map_of tab s of
             Some a \<Rightarrow> Inr a
           | None \<Rightarrow> Inl [(p, invalid_enum_value)])
      | _ \<Rightarrow> Inl [(p, invalid_type)])"

text \<open>\<^verbatim>\<open>.optional()\<close>: only \<^verbatim>\<open>undefined\<close> is let through, \<^verbatim>\<open>null\<close> is not.\<close>

definition z_optional :: "('n, 'a) zod \<Rightarrow> ('n, 'a option) zod" where
  "z_optional z p v =
     (case v of
        None \<Rightarrow> Inr None
      | Some j \<Rightarrow> (case z p v of Inl e \<Rightarrow> Inl e | Inr a \<Rightarrow> Inr (Some a)))"

text \<open>Two results side by side: the issues of both are kept.\<close>

definition ap :: "issue list + ('a \<Rightarrow> 'b) \<Rightarrow> issue list + 'a \<Rightarrow> issue list + 'b" where
  "ap f x =
     (case f of
        Inl e1 \<Rightarrow> (case x of Inl e2 \<Rightarrow> Inl (e1 @ e2) | Inr a \<Rightarrow> Inl e1)
      | Inr g \<Rightarrow> (case x of Inl e2 \<Rightarrow> Inl e2 | Inr a \<Rightarrow> Inr (g a)))"

text \<open>\<^verbatim>\<open>z.array(elem)\<close>: every element is checked, at its index.\<close>

fun z_elems :: "('n, 'a) zod \<Rightarrow> path_elem list \<Rightarrow> nat \<Rightarrow> 'n json list \<Rightarrow> issue list + 'a list" where
  "z_elems z p i [] = Inr []"
| "z_elems z p i (x # xs) = ap (ap (Inr (#)) (z (p @ [Idx i]) (Some x))) (z_elems z p (Suc i) xs)"

definition z_array :: "('n, 'a) zod \<Rightarrow> ('n, 'a list) zod" where
  "z_array z p v = (case v of Some (JArr xs) \<Rightarrow> z_elems z p 0 xs | _ \<Rightarrow> Inl [(p, invalid_type)])"

text \<open>
  \<^verbatim>\<open>z.object({...})\<close>: the value must be an object; each key of the shape is read
  with \<open>field\<close> (a missing key reads as \<^verbatim>\<open>undefined\<close>), keys that are not in the shape are
  dropped.
\<close>

definition field :: "(string \<times> 'n json) list \<Rightarrow> path_elem list \<Rightarrow> string \<Rightarrow> ('n, 'a) zod \<Rightarrow> issue list + 'a" where
  "field kvs p k z = z (p @ [Key k]) (map_of kvs k)"

definition z_object :: "((string \<times> 'n json) list \<Rightarrow> path_elem list \<Rightarrow> issue list + 'a) \<Rightarrow> ('n, 'a) zod" where
  "z_object shape p v = (case v of Some (JObj kvs) \<Rightarrow> shape kvs p | _ \<Rightarrow> Inl [(p, invalid_type)])"

text \<open>\<^verbatim>\<open>z.union([a, b])\<close>: the first option that accepts the value wins.\<close>

definition z_union :: "('n, 'a) zod \<Rightarrow> ('n, 'b) zod \<Rightarrow> ('n, 'a + 'b) zod" where
  "z_union za zb p v =
     (case za p v of
        Inr a \<Rightarrow> Inr (Inl a)
      | Inl e1 \<Rightarrow>
          (case zb p v of
             Inr b \<Rightarrow> Inr (Inr b)
           | Inl e2 \<Rightarrow> Inl [(p, invalid_union [e1, e2])]))"

section \<open>The data of the two operations\<close>

text \<open>
  The roles of the enum \<^verbatim>\<open>["user", "assistant", "system", "developer"]\<close>, and a
  conversation message \<^verbatim>\<open>{ role, content }\<close>.
\<close>

datatype role = User | Assistant | System | Developer

record message =
  role :: role
  content :: string

fun role_str :: "role \<Rightarrow> string" where
  "role_str User = ''user''"
| "role_str Assistant = ''assistant''"
| "role_str System = ''system''"
| "role_str Developer = ''developer''"

text \<open>\<^verbatim>\<open>ApproximateLocationSchema\<close>; its \<^verbatim>\<open>type\<close> is the literal \<^verbatim>\<open>"approximate"\<close>.\<close>

record approximate =
  country :: "string option"
  city :: "string option"
  region :: "string option"
  timezone :: "string option"

record approximate_location =
  approximate :: approximate

datatype search_context_size = Low | Medium | High

fun search_context_size_str :: "search_context_size \<Rightarrow> string" where
  "search_context_size_str Low = ''low''"
| "search_context_size_str Medium = ''medium''"
| "search_context_size_str High = ''high''"

record web_search_options =
  user_location :: "approximate_location option"
  search_context_size :: "search_context_size option"

text \<open>The parameters of \<^verbatim>\<open>web_search_chat_completion\<close> (index.ts, version 1.1.2).\<close>

datatype chat_model = Gpt_4o_search_preview | Gpt_4o_mini_search_preview

fun chat_model_str :: "chat_model \<Rightarrow> string" where
  "chat_model_str Gpt_4o_search_preview = ''gpt-4o-search-preview''"
| "chat_model_str Gpt_4o_mini_search_preview = ''gpt-4o-mini-search-preview''"

record chat_completion_params =
  cc_model :: chat_model
  cc_messages :: "message list"
  cc_web_search_options :: "web_search_options option"

text \<open>The parameters of \<^verbatim>\<open>web_search_responses\<close> in index.ts (version 1.1.2).\<close>

datatype responses_model = Gpt_4o

datatype tool_type = Web_search_preview | Web_search_preview_2025_03_11

fun tool_type_str :: "tool_type \<Rightarrow> string" where
  "tool_type_str Web_search_preview = ''web_search_preview''"
| "tool_type_str Web_search_preview_2025_03_11 = ''web_search_preview_2025_03_11''"

record tool =
  tool_type :: tool_type
  tool_user_location :: "approximate_location option"
  tool_search_context_size :: "search_context_size option"

record responses_params =
  rp_model :: responses_model
  rp_tools :: "tool list"
  rp_input :: "string + message list"

text \<open>
  The parameters of \<^verbatim>\<open>web_search_responses\<close> in the earlier file (version 1.0.0),
  the one that reshapes \<^verbatim>\<open>messages\<close>. The \<^verbatim>\<open>type\<close> of a tool is the literal
  \<^verbatim>\<open>"web_search_preview"\<close>.
\<close>

record tool_v100 =
  t_web_search_preview :: "web_search_options option"

datatype format_type = Text | Json_object

fun format_type_str :: "format_type \<Rightarrow> string" where
  "format_type_str Text = ''text''"
| "format_type_str Json_object = ''json_object''"

record response_format =
  rf_type :: "format_type option"

datatype truncation = Auto | Disabled

fun truncation_str :: "truncation \<Rightarrow> string" where
  "truncation_str Auto = ''auto''"
| "truncation_str Disabled = ''disabled''"

record 'n responses_params_v100 =
  p_model :: string
  p_tools :: "tool_v100 list"
  p_messages :: "message list"
  p_temperature :: "'n option"
  p_max_tokens :: "'n option"
  p_top_p :: "'n option"
  p_presence_penalty :: "'n option"
  p_frequency_penalty :: "'n option"
  p_response_format :: "response_format option"
  p_truncation :: "truncation option"
  p_stream :: "bool option"
  p_user :: "string option"
  p_instructions :: "string option"
  p_store :: "bool option"
  p_parallel_tool_calls :: "bool option"
  p_previous_response_id :: "string option"

section \<open>The schemas\<close>

definition ApproximateLocationSchema :: "('n, approximate_location) zod" where
  "ApproximateLocationSchema =
     z_object (\<lambda>kvs p.
       ap (ap (Inr (\<lambda>(t :: unit) a. \<lparr>approximate = a\<rparr>))
            (field kvs p ''type'' (z_literal ''approximate'')))
          (field kvs p ''approximate''
             (z_object (\<lambda>kvs p.
                ap (ap (ap (ap (Inr (\<lambda>co ci re tz.
                                   \<lparr>country = co, city = ci, region = re, timezone = tz\<rparr>))
                     (field kvs p ''country'' (z_optional (z_string_length 2))))
                     (field kvs p ''city'' (z_optional z_string)))
                     (field kvs p ''region'' (z_optional z_string)))
                     (field kvs p ''timezone'' (z_optional z_string))))))"

definition search_context_size_enum :: "(string \<times> search_context_size) list" where
  "search_context_size_enum = [(''low'', Low), (''medium'', Medium), (''high'', High)]"

text \<open>
  The message object \<^verbatim>\<open>z.object({ role: z.enum(roles), content: z.string() })\<close>,
  written three times in the source with two different role enums.
\<close>

definition message_schema :: "(string \<times> role) list \<Rightarrow> ('n, message) zod" where
  "message_schema roles =
     z_object (\<lambda>kvs p.
       ap (ap (Inr (\<lambda>r c. \<lparr>role = r, content = c\<rparr>))
            (field kvs p ''role'' (z_enum roles)))
          (field kvs p ''content'' z_string))"

definition chat_roles :: "(string \<times> role) list" where
  "chat_roles =
     [(''user'', User), (''assistant'', Assistant), (''system'', System), (''developer'', Developer)]"

definition responses_roles :: "(string \<times> role) list" where
  "responses_roles = [(''user'', User), (''assistant'', Assistant), (''system'', System)]"

text \<open>
  The object \<^verbatim>\<open>{ user_location?, search_context_size? }\<close>: \<^verbatim>\<open>web_search_options\<close>
  of the chat completion schema, and \<^verbatim>\<open>web_search_preview\<close> of a version 1.0.0 tool.
\<close>

definition web_search_options_schema :: "('n, web_search_options) zod" where
  "web_search_options_schema =
     z_object (\<lambda>kvs p.
       ap (ap (Inr (\<lambda>l s. \<lparr>user_location = l, search_context_size = s\<rparr>))
            (field kvs p ''user_location'' (z_optional ApproximateLocationSchema)))
          (field kvs p ''search_context_size'' (z_optional (z_enum search_context_size_enum))))"

definition WebSearchChatCompletionSchema :: "('n, chat_completion_params) zod" where
  "WebSearchChatCompletionSchema =
     z_object (\<lambda>kvs p.
       ap (ap (ap (Inr (\<lambda>m ms w.
                     \<lparr>cc_model = m, cc_messages = ms, cc_web_search_options = w\<rparr>))
            (field kvs p ''model''
               (z_enum [(''gpt-4o-search-preview'', Gpt_4o_search_preview),
                        (''gpt-4o-mini-search-preview'', Gpt_4o_mini_search_preview)])))
            (field kvs p ''messages'' (z_array (message_schema chat_roles))))
            (field kvs p ''web_search_options'' (z_optional web_search_options_schema)))"

text \<open>
  The object of the \<^verbatim>\<open>tools\<close> array of \<^verbatim>\<open>WebSearchResponsesSchema\<close> in index.ts;
  the source writes it in place.
\<close>

definition tool_schema :: "('n, tool) zod" where
  "tool_schema =
     z_object (\<lambda>kvs p.
       ap (ap (ap (Inr (\<lambda>t l s.
                     \<lparr>tool_type = t, tool_user_location = l, tool_search_context_size = s\<rparr>))
            (field kvs p ''type''
               (z_enum [(''web_search_preview'', Web_search_preview),
                        (''web_search_preview_2025_03_11'', Web_search_preview_2025_03_11)])))
            (field kvs p ''user_location'' (z_optional ApproximateLocationSchema)))
            (field kvs p ''search_context_size'' (z_optional (z_enum search_context_size_enum))))"

definition WebSearchResponsesSchema :: "('n, responses_params) zod" where
  "WebSearchResponsesSchema =
     z_object (\<lambda>kvs p.
       ap (ap (ap (Inr (\<lambda>m ts i. \<lparr>rp_model = m, rp_tools = ts, rp_input = i\<rparr>))
            (field kvs p ''model'' (z_enum [(''gpt-4o'', Gpt_4o)])))
            (field kvs p ''tools'' (z_array tool_schema)))
            (field kvs p ''input''
               (z_union z_string (z_array (message_schema responses_roles)))))"

text \<open>
  The object of the \<^verbatim>\<open>tools\<close> array of the version 1.0.0 schema, written in place in
  the source as well.
\<close>

definition tool_schema_v100 :: "('n, tool_v100) zod" where
  "tool_schema_v100 =
     z_object (\<lambda>kvs p.
       ap (ap (Inr (\<lambda>(t :: unit) w. \<lparr>t_web_search_preview = w\<rparr>))
            (field kvs p ''type'' (z_literal ''web_search_preview'')))
          (field kvs p ''web_search_preview'' (z_optional web_search_options_schema)))"

definition WebSearchResponsesSchema_v100 :: "('n, 'n responses_params_v100) zod" where
  "WebSearchResponsesSchema_v100 =
     z_object (\<lambda>kvs p.
       ap (ap (ap (ap (ap (ap (ap (ap (ap (ap (ap (ap (ap (ap (ap (ap
         (Inr (\<lambda>m ts ms te mt tp pp fp rf tr st us ins sto par prev.
            \<lparr>p_model = m, p_tools = ts, p_messages = ms, p_temperature = te,
             p_max_tokens = mt, p_top_p = tp, p_presence_penalty = pp,
             p_frequency_penalty = fp, p_response_format = rf, p_truncation = tr,
             p_stream = st, p_user = us, p_instructions = ins, p_store = sto,
             p_parallel_tool_calls = par, p_previous_response_id = prev\<rparr>))
         (field kvs p ''model'' z_string))
         (field kvs p ''tools'' (z_array tool_schema_v100)))
         (field kvs p ''messages'' (z_array (message_schema responses_roles))))
         (field kvs p ''temperature'' (z_optional z_number)))
         (field kvs p ''max_tokens'' (z_optional z_number)))
         (field kvs p ''top_p'' (z_optional z_number)))
         (field kvs p ''presence_penalty'' (z_optional z_number)))
         (field kvs p ''frequency_penalty'' (z_optional z_number)))
         (field kvs p ''response_format''
            (z_optional (z_object (\<lambda>kvs p.
               ap (Inr (\<lambda>t. \<lparr>rf_type = t\<rparr>))
                  (field kvs p ''type''
                     (z_optional (z_enum [(''text'', Text), (''json_object'', Json_object)]))))))))
         (field kvs p ''truncation''
            (z_optional (z_enum [(''auto'', Auto), (''disabled'', Disabled)]))))
         (field kvs p ''stream'' (z_optional z_boolean)))
         (field kvs p ''user'' (z_optional z_string)))
         (field kvs p ''instructions'' (z_optional z_string)))
         (field kvs p ''store'' (z_optional z_boolean)))
         (field kvs p ''parallel_tool_calls'' (z_optional z_boolean)))
         (field kvs p ''previous_response_id'' (z_optional z_string)))"

section \<open>What \<^verbatim>\<open>JSON.stringify\<close> writes for the typed values\<close>

definition enc_message :: "message \<Rightarrow> 'n json" where
  "enc_message m = JObj [(''role'', JStr (role_str (role m))), (''content'', JStr (content m))]"

definition enc_approximate_location :: "approximate_location \<Rightarrow> 'n json" where
  "enc_approximate_location l =
     JObj [(''type'', JStr ''approximate''),
           (''approximate'',
            JObj (opt_field ''country'' JStr (country (approximate l)) @
                  opt_field ''city'' JStr (city (approximate l)) @
                  opt_field ''region'' JStr (region (approximate l)) @
                  opt_field ''timezone'' JStr (timezone (approximate l))))]"

definition enc_search_context_size :: "search_context_size \<Rightarrow> 'n json" where
  "enc_search_context_size s = JStr (search_context_size_str s)"

definition enc_web_search_options :: "web_search_options \<Rightarrow> 'n json" where
  "enc_web_search_options w =
     JObj (opt_field ''user_location'' enc_approximate_location (user_location w) @
           opt_field ''search_context_size'' enc_search_context_size (search_context_size w))"

definition enc_chat_completion_params :: "chat_completion_params \<Rightarrow> 'n json" where
  "enc_chat_completion_params params =
     JObj ([(''model'', JStr (chat_model_str (cc_model params))),
            (''messages'', JArr (map enc_message (cc_messages params)))] @
           opt_field ''web_search_options'' enc_web_search_options (cc_web_search_options params))"

definition enc_tool :: "tool \<Rightarrow> 'n json" where
  "enc_tool t =
     JObj ([(''type'', JStr (tool_type_str (tool_type t)))] @
           opt_field ''user_location'' enc_approximate_location (tool_user_location t) @
           opt_field ''search_context_size'' enc_search_context_size (tool_search_context_size t))"

definition enc_input :: "string + message list \<Rightarrow> 'n json" where
  "enc_input i = (case i of Inl s \<Rightarrow> JStr s | Inr ms \<Rightarrow> JArr (map enc_message ms))"

definition enc_responses_params :: "responses_params \<Rightarrow> 'n json" where
  "enc_responses_params params =
     JObj [(''model'', JStr ''gpt-4o''),
           (''tools'', JArr (map enc_tool (rp_tools params))),
           (''input'', enc_input (rp_input params))]"

definition enc_tool_v100 :: "tool_v100 \<Rightarrow> 'n json" where
  "enc_tool_v100 t =
     JObj ([(''type'', JStr ''web_search_preview'')] @
           opt_field ''web_search_preview'' enc_web_search_options (t_web_search_preview t))"

definition enc_response_format :: "response_format \<Rightarrow> 'n json" where
  "enc_response_format f = JObj (opt_field ''type'' (\<lambda>t. JStr (format_type_str t)) (rf_type f))"

section \<open>The remote API\<close>

text \<open>
  \<^verbatim>\<open>fetch\<close> is the only effect. The network is a state: the replies the remote end will
  give, in order, and the requests sent so far. A reply is a response, or the message of
  the error \<^verbatim>\<open>fetch\<close> rejects with when no response arrives. A response has its status,
  its body as text (\<^verbatim>\<open>response.text()\<close>) and as JSON (\<^verbatim>\<open>response.json()\<close>, the message
  of the error when the body does not parse); reading the text of a response that has
  arrived is taken to succeed. With no reply left, \<^verbatim>\<open>fetch\<close> rejects.
  \<^verbatim>\<open>process.env.OPENAI_API_KEY\<close> is part of the state as well.
\<close>

record 'n http_request =
  url :: string
  http_method :: string
  headers :: "(string \<times> string) list"
  body :: "'n json"

record 'n http_response =
  status :: nat
  body_text :: string
  parsed :: "string + 'n json"

record 'n net =
  OPENAI_API_KEY :: "string option"
  replies :: "(string + 'n http_response) list"
  sent :: "'n http_request list"

definition fetch :: "'n net \<Rightarrow> 'n http_request \<Rightarrow> (string + 'n http_response) \<times> 'n net" where
  "fetch n req =
     (case replies n of
        [] \<Rightarrow> (Inl ''fetch failed'', n\<lparr>sent := sent n @ [req]\<rparr>)
      | r # rs \<Rightarrow> (r, n\<lparr>replies := rs, sent := sent n @ [req]\<rparr>))"

text \<open>\<^verbatim>\<open>response.ok\<close>: the status is in the range 200 to 299.\<close>

definition ok :: "'n http_response \<Rightarrow> bool" where
  "ok response = (200 \<le> status response \<and> status response \<le> 299)"

text \<open>A number inside a template literal: the status in decimal.\<close>

fun show_nat :: "nat \<Rightarrow> string" where
  "show_nat n =
     (if n < 10 then [''0123456789'' ! n]
      else show_nat (n div 10) @ [''0123456789'' ! (n mod 10)])"

declare show_nat.simps [simp del]

text \<open>\<^verbatim>\<open>${process.env.OPENAI_API_KEY}\<close>\<close>

definition env_str :: "string option \<Rightarrow> string" where
  "env_str v = (case v of None \<Rightarrow> ''undefined'' | Some s \<Rightarrow> s)"

definition request_headers :: "'n net \<Rightarrow> (string \<times> string) list" where
  "request_headers n =
     [(''Content-Type'', ''application/json''),
      (''Authorization'', ''Bearer '' @ env_str (OPENAI_API_KEY n))]"

text \<open>What is thrown is always an \<^verbatim>\<open>Error\<close> with a message.\<close>

datatype thrown = Error string

text \<open>
  The part of both functions after \<^verbatim>\<open>fetch\<close>: a response that is not ok throws with
  the status and the body text, an ok one returns \<^verbatim>\<open>response.json()\<close>.
\<close>

definition read_response :: "string + 'n http_response \<Rightarrow> thrown + 'n json" where
  "read_response reply =
     (case reply of
        Inl msg \<Rightarrow> Inl (Error msg)
      | Inr response \<Rightarrow>
          (if \<not> ok response then
             Inl (Error (''OpenAI API Error: '' @ show_nat (status response) @ '' - '' @
                         body_text response))
           else (case parsed response of Inl msg \<Rightarrow> Inl (Error msg) | Inr j \<Rightarrow> Inr j)))"

text \<open>The \<^verbatim>\<open>catch\<close> block: the error is thrown again with a prefix.\<close>

definition rethrow :: "string \<Rightarrow> thrown + 'a \<Rightarrow> thrown + 'a" where
  "rethrow prefix r = (case r of Inl (Error msg) \<Rightarrow> Inl (Error (prefix @ msg)) | Inr a \<Rightarrow> Inr a)"

section \<open>\<^verbatim>\<open>performWebSearchChatCompletion\<close>\<close>

definition chat_completion_body :: "chat_completion_params \<Rightarrow> 'n json" where
  "chat_completion_body params =
     JObj [(''model'', JStr (chat_model_str (cc_model params))),
           (''messages'', JArr (map enc_message (cc_messages params))),
           (''web_search_options'',
            (case cc_web_search_options params of
               None \<Rightarrow> JObj []
             | Some w \<Rightarrow> enc_web_search_options w))]"

definition performWebSearchChatCompletion ::
  "'n net \<Rightarrow> chat_completion_params \<Rightarrow> (thrown + 'n json) \<times> 'n net" where
  "performWebSearchChatCompletion n params =
     (let (reply, n') =
            fetch n \<lparr>url = ''https://api.openai.com/v1/chat/completions'',
                     http_method = ''POST'',
                     headers = request_headers n,
                     body = chat_completion_body params\<rparr>
      in (rethrow ''Web search chat completion error: '' (read_response reply), n'))"

section \<open>\<^verbatim>\<open>performWebSearchResponses\<close>, version 1.1.2\<close>

text \<open>The validated parameters are the body, as they are.\<close>

definition performWebSearchResponses ::
  "'n net \<Rightarrow> responses_params \<Rightarrow> (thrown + 'n json) \<times> 'n net" where
  "performWebSearchResponses n params =
     (let (reply, n') =
            fetch n \<lparr>url = ''https://api.openai.com/v1/responses'',
                     http_method = ''POST'',
                     headers = request_headers n,
                     body = enc_responses_params params\<rparr>
      in (rethrow ''Web search responses error: '' (read_response reply), n'))"

section \<open>\<^verbatim>\<open>performWebSearchResponses\<close>, version 1.0.0: the messages are reshaped\<close>

text \<open>
  The body of the \<^verbatim>\<open>forEach\<close>: the state is \<^verbatim>\<open>instructions\<close> and
  \<^verbatim>\<open>userAndAssistantMessages\<close>.
\<close>

fun processMessage :: "string option \<times> message list \<Rightarrow> message \<Rightarrow> string option \<times> message list" where
  "processMessage (instructions, userAndAssistantMessages) m =
     (if role m = System then (Some (content m), userAndAssistantMessages)
      else (instructions,
            userAndAssistantMessages @ [\<lparr>role = role m, content = content m\<rparr>]))"

definition processMessages :: "message list \<Rightarrow> string option \<times> message list" where
  "processMessages ms = foldl processMessage (None, []) ms"

text \<open>
  The \<^verbatim>\<open>for\<close> loop from \<^verbatim>\<open>length - 1\<close> down to 0, with its \<^verbatim>\<open>break\<close>. The second
  argument is \<^verbatim>\<open>i + 1\<close>; the result is \<^verbatim>\<open>input\<close> and \<^verbatim>\<open>previousMessages\<close>, which
  keep their initial values when the loop ends without a match.
\<close>

fun findLastUser :: "message list \<Rightarrow> nat \<Rightarrow> string \<times> message list" where
  "findLastUser ms 0 = ('''', [])"
| "findLastUser ms (Suc i) =
     (if role (ms ! i) = User then (content (ms ! i), take i ms)
      else findLastUser ms i)"

text \<open>
  The loop, then the fallback \<^verbatim>\<open>if (!input && userAndAssistantMessages.length > 0)\<close>:
  an empty string is falsy.
\<close>

definition selectInput :: "message list \<Rightarrow> string \<times> message list" where
  "selectInput userAndAssistantMessages =
     (let (input, previousMessages) =
            findLastUser userAndAssistantMessages (length userAndAssistantMessages)
      in if input = '''' \<and> length userAndAssistantMessages > 0 then
           (content (userAndAssistantMessages ! (length userAndAssistantMessages - 1)),
            take (length userAndAssistantMessages - 1) userAndAssistantMessages)
         else (input, previousMessages))"

text \<open>The three local variables when the body is built.\<close>

record reshaped =
  instructions :: "string option"
  input :: string
  previousMessages :: "message list"

definition reshape :: "message list \<Rightarrow> reshaped" where
  "reshape ms =
     (let (ins, userAndAssistantMessages) = processMessages ms;
          (inp, prev) = selectInput userAndAssistantMessages
      in \<lparr>instructions = ins, input = inp, previousMessages = prev\<rparr>)"

text \<open>
  \<^verbatim>\<open>requestBody\<close>, its properties in the order they are set. A property that is not
  set, or set to \<^verbatim>\<open>undefined\<close>, is \<open>None\<close>: \<^verbatim>\<open>JSON.stringify\<close> writes neither.
\<close>

record 'n request_body =
  b_model :: string
  b_tools :: "tool_v100 list"
  b_input :: string
  b_instructions :: "string option"
  b_previous_response_id :: "string option"
  b_temperature :: "'n option"
  b_max_output_tokens :: "'n option"
  b_top_p :: "'n option"
  b_presence_penalty :: "'n option"
  b_frequency_penalty :: "'n option"
  b_text :: "response_format option"
  b_truncation :: "truncation option"
  b_stream :: "bool option"
  b_user :: "string option"
  b_parallel_tool_calls :: "bool option"
  b_store :: "bool option"

definition requestBody :: "'n responses_params_v100 \<Rightarrow> 'n request_body" where
  "requestBody params =
     (let r = reshape (p_messages params)
      in \<lparr>b_model = p_model params,
          b_tools = p_tools params,
          b_input = input r,
          b_instructions = instructions r,
          b_previous_response_id =
            (if length (previousMessages r) > 0 then p_previous_response_id params else None),
          b_temperature = p_temperature params,
          b_max_output_tokens = p_max_tokens params,
          b_top_p = p_top_p params,
          b_presence_penalty = p_presence_penalty params,
          b_frequency_penalty = p_frequency_penalty params,
          b_text = p_response_format params,
          b_truncation = p_truncation params,
          b_stream = p_stream params,
          b_user = p_user params,
          b_parallel_tool_calls = p_parallel_tool_calls params,
          b_store = p_store params\<rparr>)"

definition enc_request_body :: "'n request_body \<Rightarrow> 'n json" where
  "enc_request_body b =
     JObj ([(''model'', JStr (b_model b)),
            (''tools'', JArr (map enc_tool_v100 (b_tools b))),
            (''input'', JStr (b_input b))] @
           opt_field ''instructions'' JStr (b_instructions b) @
           opt_field ''previous_response_id'' JStr (b_previous_response_id b) @
           opt_field ''temperature'' JNum (b_temperature b) @
           opt_field ''max_output_tokens'' JNum (b_max_output_tokens b) @
           opt_field ''top_p'' JNum (b_top_p b) @
           opt_field ''presence_penalty'' JNum (b_presence_penalty b) @
           opt_field ''frequency_penalty'' JNum (b_frequency_penalty b) @
           opt_field ''text'' (\<lambda>f. JObj [(''format'', enc_response_format f)]) (b_text b) @
           opt_field ''truncation'' (\<lambda>t. JStr (truncation_str t)) (b_truncation b) @
           opt_field ''stream'' JBool (b_stream b) @
           opt_field ''user'' JStr (b_user b) @
           opt_field ''parallel_tool_calls'' JBool (b_parallel_tool_calls b) @
           opt_field ''store'' JBool (b_store b))"

definition performWebSearchResponses_v100 ::
  "'n net \<Rightarrow> 'n responses_params_v100 \<Rightarrow> (thrown + 'n json) \<times> 'n net" where
  "performWebSearchResponses_v100 n params =
     (let (reply, n') =
            fetch n \<lparr>url = ''https://api.openai.com/v1/responses'',
                     http_method = ''POST'',
                     headers = request_headers n,
                     body = enc_request_body (requestBody params)\<rparr>
      in (rethrow ''Web search responses error: '' (read_response reply), n'))"

section \<open>Vocabulary of the statements\<close>

text \<open>
  The messages of a conversation that are not system messages, in their order: what
  \<^verbatim>\<open>userAndAssistantMessages\<close> holds after the \<^verbatim>\<open>forEach\<close>.
\<close>

definition nonSystem :: "message list \<Rightarrow> message list" where
  "nonSystem ms = filter (\<lambda>m. role m \<noteq> System) ms"

text \<open>
  The typed values a schema lets through: the one refinement of the schemas is
  \<^verbatim>\<open>.length(2)\<close> on the country code.
\<close>

definition valid_location :: "approximate_location \<Rightarrow> bool" where
  "valid_location l = (case country (approximate l) of None \<Rightarrow> True | Some c \<Rightarrow> length c = 2)"

definition valid_options :: "web_search_options \<Rightarrow> bool" where
  "valid_options w = (case user_location w of None \<Rightarrow> True | Some l \<Rightarrow> valid_location l)"

definition valid_chat_completion_params :: "chat_completion_params \<Rightarrow> bool" where
  "valid_chat_completion_params params =
     (case cc_web_search_options params of None \<Rightarrow> True | Some w \<Rightarrow> valid_options w)"

text \<open>
  The typed parameters of a version 1.0.0 request that gives the model \<^verbatim>\<open>"gpt-4o"\<close>, no
  tool, the messages and, when there is one, the \<^verbatim>\<open>previous_response_id\<close>.
\<close>

definition minimal_params :: "message list \<Rightarrow> string option \<Rightarrow> 'n responses_params_v100" where
  "minimal_params ms prev =
     \<lparr>p_model = ''gpt-4o'', p_tools = [], p_messages = ms, p_temperature = None,
      p_max_tokens = None, p_top_p = None, p_presence_penalty = None,
      p_frequency_penalty = None, p_response_format = None, p_truncation = None,
      p_stream = None, p_user = None, p_instructions = None, p_store = None,
      p_parallel_tool_calls = None, p_previous_response_id = prev\<rparr>"

text \<open>
  The typed parameters the schema of index.ts lets through for \<^verbatim>\<open>web_search_responses\<close>:
  country codes of two characters, and no message with the role developer, which is
  not in the role enum of that schema.
\<close>

definition valid_tool :: "tool \<Rightarrow> bool" where
  "valid_tool t = (case tool_user_location t of None \<Rightarrow> True | Some l \<Rightarrow> valid_location l)"

definition valid_responses_params :: "responses_params \<Rightarrow> bool" where
  "valid_responses_params params =
     ((\<forall>t\<in>set (rp_tools params). valid_tool t) \<and>
      (case rp_input params of
         Inl s \<Rightarrow> True
       | Inr ms \<Rightarrow> \<forall>m\<in>set ms. role m \<noteq> Developer))"

section \<open>The two loops of the reshaping\<close>

lemma foldl_processMessage:
  "foldl processMessage (ins, acc) ms =
     ((if filter (\<lambda>m. role m = System) ms = [] then ins
       else Some (content (last (filter (\<lambda>m. role m = System) ms)))),
      acc @ nonSystem ms)"
  by (induction ms arbitrary: ins acc) (auto simp: nonSystem_def)

lemma processMessages_eq:
  "processMessages ms =
     ((if filter (\<lambda>m. role m = System) ms = [] then None
       else Some (content (last (filter (\<lambda>m. role m = System) ms)))),
      nonSystem ms)"
  by (simp add: processMessages_def foldl_processMessage)

lemma findLastUser_prefix:
  "n \<le> length xs \<Longrightarrow> findLastUser (xs @ ys) n = findLastUser xs n"
  by (induction n) (auto simp: nth_append)

lemma findLastUser_none:
  "n \<le> length ms \<Longrightarrow> \<forall>m\<in>set (take n ms). role m \<noteq> User \<Longrightarrow> findLastUser ms n = ('''', [])"
proof (induction n)
  case 0
  show ?case by simp
next
  case (Suc n)
  from Suc.prems have lt: "n < length ms" by simp
  then have "take (Suc n) ms = take n ms @ [ms ! n]"
    by (rule take_Suc_conv_app_nth)
  with Suc.prems have "role (ms ! n) \<noteq> User" and "\<forall>m\<in>set (take n ms). role m \<noteq> User"
    by simp_all
  with Suc.IH lt show ?case by simp
qed

lemma findLastUser_found:
  "role u = User \<Longrightarrow> \<forall>m\<in>set post. role m \<noteq> User \<Longrightarrow>
   findLastUser (pre @ u # post) (length (pre @ u # post)) = (content u, pre)"
proof (induction post rule: rev_induct)
  case Nil
  then show ?case by (simp add: nth_append)
next
  case (snoc x ps)
  have nx: "role x \<noteq> User" using snoc.prems by simp
  have "findLastUser (pre @ u # ps @ [x]) (length (pre @ u # ps @ [x]))
        = findLastUser ((pre @ u # ps) @ [x]) (Suc (length (pre @ u # ps)))"
    by simp
  also have "\<dots> = findLastUser ((pre @ u # ps) @ [x]) (length (pre @ u # ps))"
    using nx by (simp only: findLastUser.simps nth_append_length if_False)
  also have "\<dots> = findLastUser (pre @ u # ps) (length (pre @ u # ps))"
    by (rule findLastUser_prefix) simp
  also have "\<dots> = (content u, pre)"
    using snoc by simp
  finally show ?case .
qed

lemma selectInput_fallback:
  "fst (findLastUser uam (length uam)) = '''' \<Longrightarrow> uam \<noteq> [] \<Longrightarrow>
   selectInput uam = (content (last uam), butlast uam)"
  by (simp add: selectInput_def split_beta last_conv_nth butlast_conv_take)

lemma selectInput_found:
  assumes "role u = User" "\<forall>m\<in>set post. role m \<noteq> User" "content u \<noteq> ''''"
  shows "selectInput (pre @ u # post) = (content u, pre)"
  using assms findLastUser_found [OF assms(1) assms(2), of pre]
  by (simp add: selectInput_def)

lemma selectInput_found_empty:
  assumes "role u = User" "\<forall>m\<in>set post. role m \<noteq> User" "content u = ''''"
  shows "selectInput (pre @ u # post) =
           (content (last (pre @ u # post)), butlast (pre @ u # post))"
  using assms findLastUser_found [OF assms(1) assms(2), of pre]
  by (intro selectInput_fallback) simp_all

lemma selectInput_no_user:
  assumes "\<forall>m\<in>set uam. role m \<noteq> User" "uam \<noteq> []"
  shows "selectInput uam = (content (last uam), butlast uam)"
  using assms findLastUser_none [of "length uam" uam]
  by (intro selectInput_fallback) simp_all

lemma selectInput_Nil: "selectInput [] = ('''', [])"
  by (simp add: selectInput_def)

lemma reshape_eq:
  "reshape ms =
     \<lparr>instructions =
        (if filter (\<lambda>m. role m = System) ms = [] then None
         else Some (content (last (filter (\<lambda>m. role m = System) ms)))),
      input = fst (selectInput (nonSystem ms)),
      previousMessages = snd (selectInput (nonSystem ms))\<rparr>"
  by (simp add: reshape_def processMessages_eq split_beta)

lemma nonSystem_decomp:
  "role u = User \<Longrightarrow> nonSystem (pre @ u # post) = nonSystem pre @ u # nonSystem post"
  by (simp add: nonSystem_def)

lemma nonSystem_no_user: "\<forall>m\<in>set post. role m \<noteq> User \<Longrightarrow> \<forall>m\<in>set (nonSystem post). role m \<noteq> User"
  by (simp add: nonSystem_def)

text \<open>
  The last user message is the input, and the non-system messages before it are the
  context, when its content is not the empty string.
\<close>

lemma reshape_last_user:
  assumes "role u = User" "\<forall>m\<in>set post. role m \<noteq> User" "content u \<noteq> ''''"
  shows "input (reshape (pre @ u # post)) = content u \<and>
         previousMessages (reshape (pre @ u # post)) = nonSystem pre"
  using selectInput_found [OF assms(1) nonSystem_no_user [OF assms(2)] assms(3), of "nonSystem pre"]
  by (simp add: reshape_eq nonSystem_decomp [OF assms(1)])

lemma reshape_last_user_empty:
  assumes "role u = User" "\<forall>m\<in>set post. role m \<noteq> User" "content u = ''''"
  shows "input (reshape (pre @ u # post)) = content (last (nonSystem (pre @ u # post))) \<and>
         previousMessages (reshape (pre @ u # post)) = butlast (nonSystem (pre @ u # post))"
  using selectInput_found_empty [OF assms(1) nonSystem_no_user [OF assms(2)] assms(3),
          of "nonSystem pre"]
  by (simp add: reshape_eq nonSystem_decomp [OF assms(1)])

lemma reshape_no_user:
  assumes "\<forall>m\<in>set ms. role m \<noteq> User" "nonSystem ms \<noteq> []"
  shows "input (reshape ms) = content (last (nonSystem ms)) \<and>
         previousMessages (reshape ms) = butlast (nonSystem ms)"
  using selectInput_no_user [OF nonSystem_no_user [OF assms(1)] assms(2)]
  by (simp add: reshape_eq)

lemma reshape_instructions_last:
  assumes "role s = System" "\<forall>m\<in>set post. role m \<noteq> System"
  shows "instructions (reshape (pre @ s # post)) = Some (content s)"
proof -
  have "filter (\<lambda>m. role m = System) post = []"
    using assms(2) by (simp add: filter_empty_conv)
  with assms(1) show ?thesis by (simp add: reshape_eq)
qed

lemma last_user_split:
  assumes "\<exists>m\<in>set ms. role m = User"
  shows "\<exists>pre u post. ms = pre @ u # post \<and> role u = User \<and> (\<forall>m\<in>set post. role m \<noteq> User)"
proof -
  from assms obtain pre u post
    where "ms = pre @ u # post" "role u = User" "\<forall>m\<in>set post. \<not> role m = User"
    using split_list_last_prop [of ms "\<lambda>m. role m = User"] by blast
  then show ?thesis by blast
qed

section \<open>Reading a property of an encoded object\<close>

lemma map_of_opt_field_other:
  "k' \<noteq> k \<Longrightarrow> map_of (opt_field k enc v @ rest) k' = map_of rest k'"
  by (simp add: opt_field_def split: option.splits)

lemma map_of_opt_field_same:
  "map_of rest k = None \<Longrightarrow> map_of (opt_field k enc v @ rest) k = map_option enc v"
  by (simp add: opt_field_def split: option.splits)

lemma map_of_opt_field:
  "map_of (opt_field k enc v) k' = (if k' = k then map_option enc v else None)"
  by (simp add: opt_field_def split: option.splits)

lemmas obj_simps = map_of_opt_field_other map_of_opt_field_same map_of_opt_field

lemma body_input: "obj_get (enc_request_body b) ''input'' = Some (JStr (b_input b))"
  by (simp add: enc_request_body_def)

lemma body_instructions:
  "obj_get (enc_request_body b) ''instructions'' = map_option JStr (b_instructions b)"
  by (simp del: map_of_append add: enc_request_body_def obj_simps)

lemma body_previous_response_id:
  "obj_get (enc_request_body b) ''previous_response_id'' =
     map_option JStr (b_previous_response_id b)"
  by (simp del: map_of_append add: enc_request_body_def obj_simps)

lemma requestBody_input: "b_input (requestBody params) = input (reshape (p_messages params))"
  by (simp add: requestBody_def Let_def)

lemma requestBody_instructions:
  "b_instructions (requestBody params) = instructions (reshape (p_messages params))"
  by (simp add: requestBody_def Let_def)

lemma requestBody_previous_response_id:
  "b_previous_response_id (requestBody params) =
     (if previousMessages (reshape (p_messages params)) = [] then None
      else p_previous_response_id params)"
  by (simp add: requestBody_def Let_def)

section \<open>The schemas on encoded values\<close>

lemma isl_ap: "isl (ap f x) \<longleftrightarrow> isl f \<or> isl x"
  by (simp add: ap_def split: sum.splits)

lemma ap_Inr: "ap (Inr g) (Inr a) = Inr (g a)"
  by (simp add: ap_def)

lemma z_elems_map:
  assumes "\<And>m q. m \<in> set ms \<Longrightarrow> z q (Some (enc m)) = Inr m"
  shows "z_elems z p i (map enc ms) = Inr ms"
  using assms by (induction ms arbitrary: i) (simp_all add: ap_Inr)

lemma message_schema_chat: "message_schema chat_roles p (Some (enc_message m)) = Inr m"
  by (cases "role m")
     (simp_all add: message_schema_def chat_roles_def enc_message_def z_object_def field_def
        z_enum_def z_string_def ap_Inr)

lemma message_schema_responses:
  "role m \<noteq> Developer \<Longrightarrow> message_schema responses_roles p (Some (enc_message m)) = Inr m"
  by (cases "role m")
     (simp_all add: message_schema_def responses_roles_def enc_message_def z_object_def field_def
        z_enum_def z_string_def ap_Inr)

lemma message_schema_responses_developer:
  "role m = Developer \<Longrightarrow>
   message_schema responses_roles p (Some (enc_message m)) =
     Inl [(p @ [Key ''role''], invalid_enum_value)]"
  by (simp add: message_schema_def responses_roles_def enc_message_def z_object_def field_def
        z_enum_def z_string_def ap_def)

lemma z_elems_developer:
  "\<exists>m\<in>set ms. role m = Developer \<Longrightarrow>
   isl (z_elems (message_schema responses_roles) p i (map enc_message ms))"
proof (induction ms arbitrary: i)
  case Nil
  then show ?case by simp
next
  case (Cons m ms)
  show ?case
  proof (cases "role m = Developer")
    case True
    then show ?thesis by (simp add: isl_ap message_schema_responses_developer)
  next
    case False
    with Cons.prems have "\<exists>m\<in>set ms. role m = Developer" by simp
    from Cons.IH [OF this] show ?thesis by (simp add: isl_ap)
  qed
qed

lemma z_array_responses:
  "\<forall>m\<in>set ms. role m \<noteq> Developer \<Longrightarrow>
   z_array (message_schema responses_roles) p (Some (JArr (map enc_message ms))) = Inr ms"
  by (simp add: z_array_def z_elems_map message_schema_responses)

lemma z_optional_string: "z_optional z_string p (map_option JStr v) = Inr v"
  by (cases v) (simp_all add: z_optional_def z_string_def)

lemma z_optional_country:
  "(case v of None \<Rightarrow> True | Some c \<Rightarrow> length c = 2) \<Longrightarrow>
   z_optional (z_string_length 2) p (map_option JStr v) = Inr v"
  by (cases v) (simp_all add: z_optional_def z_string_length_def)

lemma z_optional_enc:
  "(\<And>a. v = Some a \<Longrightarrow> z p (Some (enc a)) = Inr a) \<Longrightarrow>
   z_optional z p (map_option enc v) = Inr v"
  by (cases v) (simp_all add: z_optional_def)

lemma ApproximateLocationSchema_enc:
  assumes "valid_location l"
  shows "ApproximateLocationSchema p (Some (enc_approximate_location l)) = Inr l"
proof -
  have c: "z_optional (z_string_length 2) q (map_option JStr (country (approximate l))) =
           Inr (country (approximate l))" for q :: "path_elem list"
    using assms by (intro z_optional_country) (simp add: valid_location_def)
  show ?thesis
    by (simp del: map_of_append
          add: ApproximateLocationSchema_def enc_approximate_location_def z_object_def
            field_def z_literal_def obj_simps c z_optional_string ap_Inr)
qed

lemma z_optional_search_context_size:
  "z_optional (z_enum search_context_size_enum) p (map_option enc_search_context_size v) = Inr v"
proof (cases v)
  case None
  then show ?thesis by (simp add: z_optional_def)
next
  case (Some s)
  then show ?thesis
    by (cases s)
       (simp_all add: z_optional_def z_enum_def search_context_size_enum_def
          enc_search_context_size_def)
qed

lemma web_search_options_schema_enc:
  assumes "valid_options w"
  shows "web_search_options_schema p (Some (enc_web_search_options w)) = Inr w"
proof -
  have l: "z_optional ApproximateLocationSchema q
             (map_option enc_approximate_location (user_location w)) = Inr (user_location w)"
    for q :: "path_elem list"
    using assms
    by (intro z_optional_enc ApproximateLocationSchema_enc) (simp add: valid_options_def)
  show ?thesis
    by (simp del: map_of_append
          add: web_search_options_schema_def enc_web_search_options_def z_object_def
            field_def obj_simps l z_optional_search_context_size ap_Inr)
qed

lemma WebSearchChatCompletionSchema_enc:
  assumes "valid_chat_completion_params params"
  shows "WebSearchChatCompletionSchema p (Some (enc_chat_completion_params params)) = Inr params"
proof -
  have m: "z_enum [(''gpt-4o-search-preview'', Gpt_4o_search_preview),
                   (''gpt-4o-mini-search-preview'', Gpt_4o_mini_search_preview)] q
             (Some (JStr (chat_model_str (cc_model params)))) = Inr (cc_model params)"
    for q :: "path_elem list"
    by (cases "cc_model params") (simp_all add: z_enum_def)
  have ms: "z_array (message_schema chat_roles) q
              (Some (JArr (map enc_message (cc_messages params)))) = Inr (cc_messages params)"
    for q :: "path_elem list"
    by (simp add: z_array_def z_elems_map message_schema_chat)
  have w: "z_optional web_search_options_schema q
             (map_option enc_web_search_options (cc_web_search_options params))
           = Inr (cc_web_search_options params)"
    for q :: "path_elem list"
    using assms
    by (intro z_optional_enc web_search_options_schema_enc)
       (simp add: valid_chat_completion_params_def)
  show ?thesis
    by (simp del: map_of_append
          add: WebSearchChatCompletionSchema_def enc_chat_completion_params_def z_object_def
            field_def obj_simps m ms w ap_Inr)
qed

lemma z_array_developer:
  assumes "\<exists>m\<in>set ms. role m = Developer"
  shows "\<exists>e. z_array (message_schema responses_roles) p (Some (JArr (map enc_message ms))) = Inl e"
  using z_elems_developer [OF assms, of p 0] by (auto simp: z_array_def isl_def)

lemma WebSearchResponsesSchema_developer:
  fixes kvs :: "(string \<times> 'n json) list"
  assumes "\<exists>m\<in>set ms. role m = Developer"
      and "map_of kvs ''input'' = Some (JArr (map enc_message ms))"
  shows "isl (WebSearchResponsesSchema p (Some (JObj kvs)))"
proof -
  from z_array_developer [OF assms(1)] obtain e
    where "z_array (message_schema responses_roles) (p @ [Key ''input''])
             (Some (JArr (map enc_message ms) :: 'n json)) = Inl e"
    by blast
  then have "isl (z_union z_string (z_array (message_schema responses_roles))
                    (p @ [Key ''input'']) (Some (JArr (map enc_message ms) :: 'n json)))"
    by (simp add: z_union_def z_string_def)
  then show ?thesis
    by (simp add: WebSearchResponsesSchema_def z_object_def field_def isl_ap assms(2))
qed

lemma WebSearchResponsesSchema_v100_developer:
  fixes kvs :: "(string \<times> 'n json) list"
  assumes "\<exists>m\<in>set ms. role m = Developer"
      and "map_of kvs ''messages'' = Some (JArr (map enc_message ms))"
  shows "isl (WebSearchResponsesSchema_v100 p (Some (JObj kvs)))"
proof -
  from z_array_developer [OF assms(1)] obtain e
    where "z_array (message_schema responses_roles) (p @ [Key ''messages''])
             (Some (JArr (map enc_message ms) :: 'n json)) = Inl e"
    by blast
  then show ?thesis
    by (simp add: WebSearchResponsesSchema_v100_def z_object_def field_def isl_ap assms(2))
qed

lemma tool_schema_enc:
  assumes "valid_tool t"
  shows "tool_schema p (Some (enc_tool t)) = Inr t"
proof -
  have ty: "z_enum [(''web_search_preview'', Web_search_preview),
                    (''web_search_preview_2025_03_11'', Web_search_preview_2025_03_11)] q
              (Some (JStr (tool_type_str (tool_type t)))) = Inr (tool_type t)"
    for q :: "path_elem list"
    by (cases "tool_type t") (simp_all add: z_enum_def)
  have l: "z_optional ApproximateLocationSchema q
             (map_option enc_approximate_location (tool_user_location t))
           = Inr (tool_user_location t)"
    for q :: "path_elem list"
    using assms by (intro z_optional_enc ApproximateLocationSchema_enc) (simp add: valid_tool_def)
  show ?thesis
    by (simp del: map_of_append
          add: tool_schema_def enc_tool_def z_object_def field_def obj_simps ty l
            z_optional_search_context_size ap_Inr)
qed

lemma WebSearchResponsesSchema_enc:
  assumes "valid_responses_params params"
  shows "WebSearchResponsesSchema p (Some (enc_responses_params params)) = Inr params"
proof -
  have t: "z_array tool_schema q (Some (JArr (map enc_tool (rp_tools params)))) =
             Inr (rp_tools params)"
    for q :: "path_elem list"
    using assms
    by (simp add: z_array_def z_elems_map tool_schema_enc valid_responses_params_def)
  have i: "z_union z_string (z_array (message_schema responses_roles)) q
             (Some (enc_input (rp_input params))) = Inr (rp_input params)"
    for q :: "path_elem list"
  proof (cases "rp_input params")
    case (Inl s)
    then show ?thesis by (simp add: enc_input_def z_union_def z_string_def)
  next
    case (Inr ms)
    with assms have nd: "\<forall>m\<in>set ms. role m \<noteq> Developer"
      by (simp add: valid_responses_params_def)
    show ?thesis
      by (simp add: Inr enc_input_def z_union_def z_string_def z_array_responses [OF nd])
  qed
  have m: "z_enum [(''gpt-4o'', Gpt_4o)] q (Some (JStr ''gpt-4o'')) = Inr (rp_model params)"
    for q :: "path_elem list"
    by (cases "rp_model params") (simp add: z_enum_def)
  show ?thesis
    by (simp add: WebSearchResponsesSchema_def enc_responses_params_def z_object_def field_def
          t i m ap_Inr)
qed

lemma WebSearchResponsesSchema_v100_accepts:
  assumes "\<forall>m\<in>set ms. role m \<noteq> Developer"
  shows "WebSearchResponsesSchema_v100 p
           (Some (JObj [(''model'', JStr model), (''tools'', JArr []),
                        (''messages'', JArr (map enc_message ms))] :: 'n json)) =
         Inr \<lparr>p_model = model, p_tools = [], p_messages = ms, p_temperature = None,
              p_max_tokens = None, p_top_p = None, p_presence_penalty = None,
              p_frequency_penalty = None, p_response_format = None, p_truncation = None,
              p_stream = None, p_user = None, p_instructions = None, p_store = None,
              p_parallel_tool_calls = None, p_previous_response_id = None\<rparr>"
proof -
  have "z_array z (p @ [Key ''tools'']) (Some (JArr [])) = Inr []"
    for z :: "('n, tool_v100) zod"
    by (simp add: z_array_def)
  then show ?thesis
    by (simp add: WebSearchResponsesSchema_v100_def z_object_def field_def z_string_def
          z_optional_def ap_Inr z_array_responses [OF assms])
qed

section \<open>The one call of each function\<close>

lemma fetch_sent: "sent (snd (fetch n req)) = sent n @ [req]"
  by (simp add: fetch_def split: list.splits)

lemma fetch_Cons:
  "replies n = r # rs \<Longrightarrow> fetch n req = (r, n\<lparr>replies := rs, sent := sent n @ [req]\<rparr>)"
  by (simp add: fetch_def)

lemma performWebSearchChatCompletion_sent:
  "map body (sent (snd (performWebSearchChatCompletion n params))) =
     map body (sent n) @ [chat_completion_body params]"
  by (simp add: performWebSearchChatCompletion_def split_beta fetch_sent)

lemma performWebSearchResponses_sent:
  "map body (sent (snd (performWebSearchResponses n params))) =
     map body (sent n) @ [enc_responses_params params]"
  by (simp add: performWebSearchResponses_def split_beta fetch_sent)

lemma performWebSearchResponses_v100_sent:
  "map body (sent (snd (performWebSearchResponses_v100 n params))) =
     map body (sent n) @ [enc_request_body (requestBody params)]"
  by (simp add: performWebSearchResponses_v100_def split_beta fetch_sent)


lemma read_response_ok:
  "ok response \<Longrightarrow> parsed response = Inr j \<Longrightarrow> read_response (Inr response) = Inr j"
  by (simp add: read_response_def)














section \<open>The claims\<close>

subsection \<open>C1: the last user message is the input\<close>

text \<open>
  Claim C1. For every conversation with at least one user message, the input is the
  content of the last user message and the context is the non-system messages strictly
  before it. The comments of the source say the same (the last message is used "if no
  user message found"), and \<open>reshape_last_user\<close> proves it when that content is not
  empty. The fallback tests \<^verbatim>\<open>!input\<close>, so it also runs when the last user message is
  the empty string: on a user message \<^verbatim>\<open>""\<close> followed by an assistant message
  \<^verbatim>\<open>"Sunny."\<close> the claim gives the input \<^verbatim>\<open>""\<close> and an empty context, the function
  gives the assistant's text and the user message as context.
\<close>

theorem last_user_message_empty_content:
  "reshape [\<lparr>role = User, content = ''''\<rparr>, \<lparr>role = Assistant, content = ''Sunny.''\<rparr>] =
     \<lparr>instructions = None, input = ''Sunny.'',
      previousMessages = [\<lparr>role = User, content = ''''\<rparr>]\<rparr>"
  by (simp add: reshape_def processMessages_def selectInput_def)

subsection \<open>C2: the last system message is the instructions\<close>

text \<open>
  Claim C2. For every conversation with at least one system message, the instructions
  are the content of the last system message, whatever precedes it: in a conversation
  \<open>pre @ s # post\<close> whose last system message is \<open>s\<close>, the reshaper yields the content of
  \<open>s\<close> alone, and that is the \<^verbatim>\<open>instructions\<close> property of the forwarded body.
\<close>

theorem instructions_last_system_message:
  assumes "role s = System"
      and "\<forall>m\<in>set post. role m \<noteq> System"
      and "p_messages params = pre @ s # post"
  shows "instructions (reshape (pre @ s # post)) = Some (content s) \<and>
         obj_get (enc_request_body (requestBody params)) ''instructions'' =
           Some (JStr (content s))"
  using reshape_instructions_last [OF assms(1) assms(2), of pre] assms(3)
  by (simp add: body_instructions requestBody_instructions)

theorem instructions_last_system_message_witness:
  "instructions (reshape [\<lparr>role = System, content = ''Be brief''\<rparr>,
                          \<lparr>role = User, content = ''Hello''\<rparr>,
                          \<lparr>role = System, content = ''Be concise''\<rparr>,
                          \<lparr>role = User, content = ''And tomorrow?''\<rparr>]) = Some ''Be concise'' \<and>
   obj_get (enc_request_body (requestBody
       (minimal_params [\<lparr>role = System, content = ''Be brief''\<rparr>,
                        \<lparr>role = User, content = ''Hello''\<rparr>,
                        \<lparr>role = System, content = ''Be concise''\<rparr>,
                        \<lparr>role = User, content = ''And tomorrow?''\<rparr>] None
          :: int responses_params_v100))) ''instructions'' = Some (JStr ''Be concise'')"
proof -
  let ?pre = "[\<lparr>role = System, content = ''Be brief''\<rparr>, \<lparr>role = User, content = ''Hello''\<rparr>]"
  let ?s = "\<lparr>role = System, content = ''Be concise''\<rparr>"
  let ?post = "[\<lparr>role = User, content = ''And tomorrow?''\<rparr>]"
  let ?params = "minimal_params (?pre @ ?s # ?post) None :: int responses_params_v100"
  have a: "role ?s = System" by simp
  have b: "\<forall>m\<in>set ?post. role m \<noteq> System" by simp
  have c: "p_messages ?params = ?pre @ ?s # ?post" by (simp add: minimal_params_def)
  from instructions_last_system_message [OF a b c] show ?thesis by simp
qed

subsection \<open>C3: what \<^verbatim>\<open>web_search_responses\<close> forwards\<close>

text \<open>
  What each version forwards. The function of index.ts sends the validated parameters as
  they are, so a plain string is the \<^verbatim>\<open>input\<close> property unchanged, and so is a message
  sequence; there is no \<^verbatim>\<open>instructions\<close> property. The function of version 1.0.0, whose
  schema takes \<^verbatim>\<open>messages\<close> only, forwards the reshaper's input and instructions.
\<close>

lemma responses_forwarded_body:
  "map body (sent (snd (performWebSearchResponses n params))) =
     map body (sent n) @ [enc_responses_params params] \<and>
   obj_get (enc_responses_params params) ''input'' =
     Some (case rp_input params of Inl s \<Rightarrow> JStr s | Inr ms \<Rightarrow> JArr (map enc_message ms)) \<and>
   obj_get (enc_responses_params params) ''instructions'' = None \<and>
   map body (sent (snd (performWebSearchResponses_v100 n' params'))) =
     map body (sent n') @ [enc_request_body (requestBody params')] \<and>
   obj_get (enc_request_body (requestBody params')) ''input'' =
     Some (JStr (input (reshape (p_messages params')))) \<and>
   obj_get (enc_request_body (requestBody params')) ''instructions'' =
     map_option JStr (instructions (reshape (p_messages params')))"
  by (simp add: performWebSearchResponses_sent performWebSearchResponses_v100_sent
        enc_responses_params_def enc_input_def body_input body_instructions
        requestBody_input requestBody_instructions)

text \<open>
  Claim C3. A message sequence given as input is forwarded in the reshaped form
  \<^verbatim>\<open>{instructions?, input, previous_response_id?}\<close>, and a plain string is forwarded
  unchanged. The schema of index.ts (version 1.1.2) takes a string or a message sequence
  as \<^verbatim>\<open>input\<close> and describes it as "Conversation messages (will be converted to
  input/instructions format)", and the function of version 1.0.0 does convert; the
  function of index.ts sends \<^verbatim>\<open>JSON.stringify(params)\<close>. For a system message
  \<^verbatim>\<open>"Be concise"\<close> and a user message \<^verbatim>\<open>"And tomorrow?"\<close> the claim gives the input
  \<^verbatim>\<open>"And tomorrow?"\<close> and the instructions \<^verbatim>\<open>"Be concise"\<close>, which is what the reshaper
  yields; the body that is sent holds the two messages as \<^verbatim>\<open>input\<close> and no
  \<^verbatim>\<open>instructions\<close>.
\<close>

theorem message_sequence_forwarded_unreshaped:
  "map body (sent (snd (performWebSearchResponses
       \<lparr>OPENAI_API_KEY = Some ''sk-test'',
        replies = [Inr \<lparr>status = 200, body_text = ''{}'', parsed = Inr (JObj [])\<rparr>],
        sent = []\<rparr>
       \<lparr>rp_model = Gpt_4o, rp_tools = [],
        rp_input = Inr [\<lparr>role = System, content = ''Be concise''\<rparr>,
                        \<lparr>role = User, content = ''And tomorrow?''\<rparr>]\<rparr>))) =
     [JObj [(''model'', JStr ''gpt-4o''),
            (''tools'', JArr []),
            (''input'', JArr [JObj [(''role'', JStr ''system''), (''content'', JStr ''Be concise'')],
                              JObj [(''role'', JStr ''user''),
                                    (''content'', JStr ''And tomorrow?'')]])] :: int json] \<and>
   reshape [\<lparr>role = System, content = ''Be concise''\<rparr>,
            \<lparr>role = User, content = ''And tomorrow?''\<rparr>] =
     \<lparr>instructions = Some ''Be concise'', input = ''And tomorrow?'', previousMessages = []\<rparr>"
  by (simp add: performWebSearchResponses_def fetch_def enc_responses_params_def enc_input_def
        enc_message_def reshape_def processMessages_def selectInput_def)

subsection \<open>C4: when the input is not empty\<close>

text \<open>
  Claim C4. For every conversation with at least one message the input is a non-empty
  string, and without a user message the content of the most recent message of any role
  is the input. System messages are never candidates for the input: a conversation of
  one system message has the empty input, and an assistant message followed by a system
  message gives the assistant's text. The content of a message may be the empty string:
  a conversation of one assistant message \<^verbatim>\<open>""\<close> has the empty input.
\<close>

theorem input_can_be_empty:
  "input (reshape [\<lparr>role = System, content = ''Be concise''\<rparr>]) = '''' \<and>
   input (reshape [\<lparr>role = Assistant, content = ''Sunny.''\<rparr>,
                   \<lparr>role = System, content = ''Be concise''\<rparr>]) = ''Sunny.'' \<and>
   input (reshape [\<lparr>role = Assistant, content = ''''\<rparr>]) = ''''"
  by (simp add: reshape_def processMessages_def selectInput_def)

text \<open>
  Claim C4, amended. For every conversation whose last user message has a non-empty
  content, the input is that content, a non-empty string. When no user message exists
  and there is at least one non-system message, the content of the most recent non-system
  message is used as the fallback input, and the input is non-empty when that content is.
  A conversation whose last user message is the empty string is left out of the
  statement.
\<close>

theorem input_nonempty_and_fallback:
  "(role u = User \<and> (\<forall>m\<in>set post. role m \<noteq> User) \<and> content u \<noteq> '''' \<longrightarrow>
      input (reshape (pre @ u # post)) = content u \<and>
      input (reshape (pre @ u # post)) \<noteq> '''') \<and>
   ((\<forall>m\<in>set ms. role m \<noteq> User) \<and> nonSystem ms \<noteq> [] \<longrightarrow>
      input (reshape ms) = content (last (nonSystem ms))) \<and>
   ((\<forall>m\<in>set ms. role m \<noteq> User) \<and> nonSystem ms \<noteq> [] \<and>
    content (last (nonSystem ms)) \<noteq> '''' \<longrightarrow>
      input (reshape ms) \<noteq> '''')"
proof (intro conjI impI)
  assume a: "role u = User \<and> (\<forall>m\<in>set post. role m \<noteq> User) \<and> content u \<noteq> ''''"
  then have u: "role u = User" and post: "\<forall>m\<in>set post. role m \<noteq> User"
    and c: "content u \<noteq> ''''"
    by simp_all
  from reshape_last_user [OF u post c, of pre]
  show "input (reshape (pre @ u # post)) = content u" by simp
  with c show "input (reshape (pre @ u # post)) \<noteq> ''''" by simp
next
  assume "(\<forall>m\<in>set ms. role m \<noteq> User) \<and> nonSystem ms \<noteq> []"
  then show "input (reshape ms) = content (last (nonSystem ms))"
    using reshape_no_user [of ms] by simp
next
  assume "(\<forall>m\<in>set ms. role m \<noteq> User) \<and> nonSystem ms \<noteq> [] \<and>
          content (last (nonSystem ms)) \<noteq> ''''"
  then show "input (reshape ms) \<noteq> ''''"
    using reshape_no_user [of ms] by simp
qed

theorem input_nonempty_and_fallback_witness:
  "input (reshape [\<lparr>role = System, content = ''Be concise''\<rparr>,
                   \<lparr>role = User, content = ''And tomorrow?''\<rparr>,
                   \<lparr>role = Assistant, content = ''''\<rparr>]) = ''And tomorrow?'' \<and>
   nonSystem [\<lparr>role = System, content = ''Be concise''\<rparr>,
              \<lparr>role = Developer, content = ''Hello''\<rparr>,
              \<lparr>role = Assistant, content = ''Sunny.''\<rparr>] =
     [\<lparr>role = Developer, content = ''Hello''\<rparr>, \<lparr>role = Assistant, content = ''Sunny.''\<rparr>] \<and>
   input (reshape [\<lparr>role = System, content = ''Be concise''\<rparr>,
                   \<lparr>role = Developer, content = ''Hello''\<rparr>,
                   \<lparr>role = Assistant, content = ''Sunny.''\<rparr>]) = ''Sunny.''"
proof -
  let ?pre = "[\<lparr>role = System, content = ''Be concise''\<rparr>]"
  let ?u = "\<lparr>role = User, content = ''And tomorrow?''\<rparr>"
  let ?post = "[\<lparr>role = Assistant, content = ''''\<rparr>]"
  let ?ms = "[\<lparr>role = System, content = ''Be concise''\<rparr>,
              \<lparr>role = Developer, content = ''Hello''\<rparr>,
              \<lparr>role = Assistant, content = ''Sunny.''\<rparr>]"
  have a: "role ?u = User \<and> (\<forall>m\<in>set ?post. role m \<noteq> User) \<and> content ?u \<noteq> ''''"
    by simp
  have n: "nonSystem ?ms =
             [\<lparr>role = Developer, content = ''Hello''\<rparr>, \<lparr>role = Assistant, content = ''Sunny.''\<rparr>]"
    by (simp add: nonSystem_def)
  have b: "(\<forall>m\<in>set ?ms. role m \<noteq> User) \<and> nonSystem ?ms \<noteq> []"
    by (simp add: n)
  from input_nonempty_and_fallback [of ?u ?post ?pre ?ms] a
  have "input (reshape (?pre @ ?u # ?post)) = content ?u" by blast
  moreover from input_nonempty_and_fallback [of ?u ?post ?pre ?ms] b
  have "input (reshape ?ms) = content (last (nonSystem ?ms))" by blast
  ultimately show ?thesis by (simp add: n)
qed

subsection \<open>C5: a conversation of system messages only\<close>

text \<open>
  Claim C5. For every conversation that consists of system messages only (at least
  one), the reshaper yields the empty input and defined instructions, nothing is raised,
  and the remote call is made with the empty input: the one request sent has the
  \<^verbatim>\<open>input\<close> \<^verbatim>\<open>""\<close> and the content of the last message as \<^verbatim>\<open>instructions\<close>, and when
  the remote end answers with an ok response the function returns its JSON body.
\<close>

theorem system_only_conversation:
  assumes "p_messages params \<noteq> []"
      and "\<forall>m\<in>set (p_messages params). role m = System"
  shows "input (reshape (p_messages params)) = '''' \<and>
         instructions (reshape (p_messages params)) = Some (content (last (p_messages params))) \<and>
         map body (sent (snd (performWebSearchResponses_v100 n params))) =
           map body (sent n) @ [enc_request_body (requestBody params)] \<and>
         obj_get (enc_request_body (requestBody params)) ''input'' = Some (JStr '''') \<and>
         obj_get (enc_request_body (requestBody params)) ''instructions'' =
           Some (JStr (content (last (p_messages params)))) \<and>
         (\<forall>response rs j.
            replies n = Inr response # rs \<and> ok response \<and> parsed response = Inr j \<longrightarrow>
            fst (performWebSearchResponses_v100 n params) = Inr j)"
proof -
  have sys: "filter (\<lambda>m. role m = System) (p_messages params) = p_messages params"
    using assms(2) by (simp add: filter_id_conv)
  have non: "nonSystem (p_messages params) = []"
    using assms(2) by (simp add: nonSystem_def filter_empty_conv)
  have i: "input (reshape (p_messages params)) = ''''"
    by (simp add: reshape_eq non selectInput_Nil)
  have s: "instructions (reshape (p_messages params)) = Some (content (last (p_messages params)))"
    using assms(1) by (simp add: reshape_eq sys)
  have r: "fst (performWebSearchResponses_v100 n params) = Inr j"
    if "replies n = Inr response # rs \<and> ok response \<and> parsed response = Inr j"
    for response rs j
    using that
    by (simp add: performWebSearchResponses_v100_def fetch_Cons read_response_ok rethrow_def)
  have b: "obj_get (enc_request_body (requestBody params)) ''input'' = Some (JStr '''') \<and>
           obj_get (enc_request_body (requestBody params)) ''instructions'' =
             Some (JStr (content (last (p_messages params))))"
    by (simp add: i s body_input body_instructions requestBody_input requestBody_instructions)
  from i s b r performWebSearchResponses_v100_sent [of n params] show ?thesis
    by blast
qed

theorem system_only_conversation_witness:
  "performWebSearchResponses_v100
     \<lparr>OPENAI_API_KEY = Some ''sk-test'',
      replies = [Inr \<lparr>status = 200, body_text = ''{}'', parsed = Inr (JObj [])\<rparr>],
      sent = []\<rparr>
     (minimal_params [\<lparr>role = System, content = ''Be brief''\<rparr>,
                      \<lparr>role = System, content = ''Be concise''\<rparr>] None) =
   (Inr (JObj [] :: int json),
    \<lparr>OPENAI_API_KEY = Some ''sk-test'', replies = [],
     sent = [\<lparr>url = ''https://api.openai.com/v1/responses'', http_method = ''POST'',
              headers = [(''Content-Type'', ''application/json''),
                         (''Authorization'', ''Bearer sk-test'')],
              body = JObj [(''model'', JStr ''gpt-4o''), (''tools'', JArr []),
                           (''input'', JStr ''''),
                           (''instructions'', JStr ''Be concise'')]\<rparr>]\<rparr>)"
proof -
  let ?params = "minimal_params [\<lparr>role = System, content = ''Be brief''\<rparr>,
                                 \<lparr>role = System, content = ''Be concise''\<rparr>] None
                   :: int responses_params_v100"
  let ?n = "\<lparr>OPENAI_API_KEY = Some ''sk-test'',
             replies = [Inr \<lparr>status = 200, body_text = ''{}'',
                             parsed = Inr (JObj [] :: int json)\<rparr>],
             sent = []\<rparr>"
  have a: "p_messages ?params \<noteq> []" by (simp add: minimal_params_def)
  have b: "\<forall>m\<in>set (p_messages ?params). role m = System" by (simp add: minimal_params_def)
  have p: "p_messages ?params = [\<lparr>role = System, content = ''Be brief''\<rparr>,
                                  \<lparr>role = System, content = ''Be concise''\<rparr>]"
    by (simp add: minimal_params_def)
  from system_only_conversation [OF a b, of ?n]
  have i: "input (reshape (p_messages ?params)) = ''''"
    and s: "instructions (reshape (p_messages ?params)) = Some ''Be concise''"
    by (simp_all add: p)
  have "enc_request_body (requestBody ?params) =
          JObj [(''model'', JStr ''gpt-4o''), (''tools'', JArr []), (''input'', JStr ''''),
                (''instructions'', JStr ''Be concise'')]"
    using i s
    by (simp add: enc_request_body_def requestBody_def Let_def opt_field_def)
       (simp add: minimal_params_def)
  then show ?thesis
    by (simp add: performWebSearchResponses_v100_def fetch_def read_response_def ok_def
          rethrow_def request_headers_def env_str_def)
qed

subsection \<open>C6: the chat completion request is passed through\<close>

text \<open>
  Claim C6. Every valid chat completion request is accepted by its schema, the
  \<^verbatim>\<open>messages\<close> of the forwarded body are the \<^verbatim>\<open>messages\<close> of the request, and a
  request without \<^verbatim>\<open>web_search_options\<close> is forwarded with the empty object there.
  A valid request is a typed value whose country codes have two characters; the schema
  run on its JSON form gives it back.
\<close>

theorem chat_completion_passthrough:
  assumes "valid_chat_completion_params params"
  shows "WebSearchChatCompletionSchema [] (Some (enc_chat_completion_params params)) =
           Inr params \<and>
         map body (sent (snd (performWebSearchChatCompletion n params))) =
           map body (sent n) @ [chat_completion_body params] \<and>
         obj_get (chat_completion_body params) ''messages'' =
           obj_get (enc_chat_completion_params params) ''messages'' \<and>
         obj_get (chat_completion_body params) ''messages'' =
           Some (JArr (map enc_message (cc_messages params))) \<and>
         (cc_web_search_options params = None \<longrightarrow>
            obj_get (chat_completion_body params) ''web_search_options'' = Some (JObj []))"
  using WebSearchChatCompletionSchema_enc [OF assms, of "[]"]
  by (simp add: performWebSearchChatCompletion_sent chat_completion_body_def
        enc_chat_completion_params_def)

theorem chat_completion_passthrough_witness:
  "WebSearchChatCompletionSchema []
     (Some (JObj [(''model'', JStr ''gpt-4o-search-preview''),
                  (''messages'', JArr [JObj [(''role'', JStr ''developer''),
                                             (''content'', JStr ''Be concise'')],
                                       JObj [(''role'', JStr ''user''),
                                             (''content'', JStr ''And tomorrow?'')]])]
            :: int json)) =
     Inr \<lparr>cc_model = Gpt_4o_search_preview,
          cc_messages = [\<lparr>role = Developer, content = ''Be concise''\<rparr>,
                         \<lparr>role = User, content = ''And tomorrow?''\<rparr>],
          cc_web_search_options = None\<rparr> \<and>
   map body (sent (snd (performWebSearchChatCompletion
       \<lparr>OPENAI_API_KEY = Some ''sk-test'', replies = [], sent = []\<rparr>
       \<lparr>cc_model = Gpt_4o_search_preview,
        cc_messages = [\<lparr>role = Developer, content = ''Be concise''\<rparr>,
                       \<lparr>role = User, content = ''And tomorrow?''\<rparr>],
        cc_web_search_options = None\<rparr>))) =
     [JObj [(''model'', JStr ''gpt-4o-search-preview''),
            (''messages'', JArr [JObj [(''role'', JStr ''developer''),
                                       (''content'', JStr ''Be concise'')],
                                 JObj [(''role'', JStr ''user''),
                                       (''content'', JStr ''And tomorrow?'')]]),
            (''web_search_options'', JObj [])] :: int json]"
proof -
  let ?params = "\<lparr>cc_model = Gpt_4o_search_preview,
                  cc_messages = [\<lparr>role = Developer, content = ''Be concise''\<rparr>,
                                 \<lparr>role = User, content = ''And tomorrow?''\<rparr>],
                  cc_web_search_options = None\<rparr>"
  let ?n = "\<lparr>OPENAI_API_KEY = Some ''sk-test'', replies = [], sent = [] :: int http_request list\<rparr>"
  have v: "valid_chat_completion_params ?params"
    by (simp add: valid_chat_completion_params_def)
  from chat_completion_passthrough [OF v, of ?n] show ?thesis
    by (simp add: enc_chat_completion_params_def chat_completion_body_def enc_message_def
          opt_field_def)
qed

subsection \<open>C7: a response that is not ok\<close>




subsection \<open>C8: the \<^verbatim>\<open>previous_response_id\<close> of the request\<close>

text \<open>
  Claim C8. A \<^verbatim>\<open>previous_response_id\<close> that is present on the request appears unchanged
  in the forwarded body. The function sets it under the guard
  \<^verbatim>\<open>if (previousMessages.length > 0)\<close>: a request with a single user message and the id
  \<^verbatim>\<open>"resp_123"\<close> is forwarded without it.
\<close>

theorem previous_response_id_dropped_without_context:
  "map body (sent (snd (performWebSearchResponses_v100
       \<lparr>OPENAI_API_KEY = Some ''sk-test'',
        replies = [Inr \<lparr>status = 200, body_text = ''{}'', parsed = Inr (JObj [])\<rparr>],
        sent = []\<rparr>
       (minimal_params [\<lparr>role = User, content = ''And tomorrow?''\<rparr>] (Some ''resp_123''))))) =
     [JObj [(''model'', JStr ''gpt-4o''), (''tools'', JArr []),
            (''input'', JStr ''And tomorrow?'')] :: int json]"
  by (simp add: performWebSearchResponses_v100_def fetch_def enc_request_body_def
        requestBody_def Let_def opt_field_def minimal_params_def reshape_def
        processMessages_def selectInput_def)

text \<open>
  Claim C8, amended. For every request of the version 1.0.0 function on which a
  \<^verbatim>\<open>previous_response_id\<close> is present and whose reshaped context is not empty, that
  id appears unchanged in the forwarded body; when the context is empty the body has no
  \<^verbatim>\<open>previous_response_id\<close>.
\<close>

theorem previous_response_id_forwarded_with_context:
  "(p_previous_response_id params = Some i \<and>
    previousMessages (reshape (p_messages params)) \<noteq> [] \<longrightarrow>
      obj_get (enc_request_body (requestBody params)) ''previous_response_id'' =
        Some (JStr i)) \<and>
   (previousMessages (reshape (p_messages params)) = [] \<longrightarrow>
      obj_get (enc_request_body (requestBody params)) ''previous_response_id'' = None) \<and>
   map body (sent (snd (performWebSearchResponses_v100 n params))) =
     map body (sent n) @ [enc_request_body (requestBody params)]"
  by (simp add: body_previous_response_id requestBody_previous_response_id
        performWebSearchResponses_v100_sent)

theorem previous_response_id_forwarded_with_context_witness:
  "previousMessages (reshape [\<lparr>role = User, content = ''Hello''\<rparr>,
                              \<lparr>role = Assistant, content = ''Sunny.''\<rparr>,
                              \<lparr>role = User, content = ''And tomorrow?''\<rparr>]) =
     [\<lparr>role = User, content = ''Hello''\<rparr>, \<lparr>role = Assistant, content = ''Sunny.''\<rparr>] \<and>
   obj_get (enc_request_body (requestBody
       (minimal_params [\<lparr>role = User, content = ''Hello''\<rparr>,
                        \<lparr>role = Assistant, content = ''Sunny.''\<rparr>,
                        \<lparr>role = User, content = ''And tomorrow?''\<rparr>] (Some ''resp_123'')
          :: int responses_params_v100))) ''previous_response_id'' = Some (JStr ''resp_123'')"
proof -
  let ?ms = "[\<lparr>role = User, content = ''Hello''\<rparr>,
              \<lparr>role = Assistant, content = ''Sunny.''\<rparr>,
              \<lparr>role = User, content = ''And tomorrow?''\<rparr>]"
  let ?params = "minimal_params ?ms (Some ''resp_123'') :: int responses_params_v100"
  have p: "previousMessages (reshape ?ms) =
             [\<lparr>role = User, content = ''Hello''\<rparr>, \<lparr>role = Assistant, content = ''Sunny.''\<rparr>]"
    by (simp add: reshape_def processMessages_def selectInput_def)
  have a: "p_previous_response_id ?params = Some ''resp_123'' \<and>
           previousMessages (reshape (p_messages ?params)) \<noteq> []"
    by (simp add: minimal_params_def p)
  from previous_response_id_forwarded_with_context [of ?params "''resp_123''"] a p
  show ?thesis by blast
qed

subsection \<open>C9: the roles \<^verbatim>\<open>web_search_responses\<close> accepts\<close>

text \<open>
  Claim C9. For \<^verbatim>\<open>web_search_responses\<close> the schema accepts message sequences with
  the role developer. The role enum of both versions of the schema is
  \<^verbatim>\<open>["user", "assistant", "system"]\<close> (only the chat completion schema has developer):
  a request with one developer message is rejected, with the issue at the role.
\<close>

theorem responses_schema_rejects_developer:
  "WebSearchResponsesSchema []
     (Some (JObj [(''model'', JStr ''gpt-4o''), (''tools'', JArr []),
                  (''input'', JArr [JObj [(''role'', JStr ''developer''),
                                          (''content'', JStr ''Be concise'')]])]
            :: int json)) =
     Inl [([Key ''input''],
           invalid_union [[([Key ''input''], invalid_type)],
                          [([Key ''input'', Idx 0, Key ''role''], invalid_enum_value)]])] \<and>
   WebSearchResponsesSchema_v100 []
     (Some (JObj [(''model'', JStr ''gpt-4o''), (''tools'', JArr []),
                  (''messages'', JArr [JObj [(''role'', JStr ''developer''),
                                             (''content'', JStr ''Be concise'')]])]
            :: int json)) =
     Inl [([Key ''messages'', Idx 0, Key ''role''], invalid_enum_value)]"
  by (simp add: WebSearchResponsesSchema_def WebSearchResponsesSchema_v100_def z_object_def
        field_def z_enum_def z_array_def z_union_def z_string_def z_optional_def
        message_schema_def responses_roles_def ap_def)

text \<open>
  Claim C9, amended. For \<^verbatim>\<open>web_search_responses\<close> the schema accepts the message
  sequences whose elements have the roles user, assistant and system (in index.ts with any
  valid tools, in version 1.0.0 in a request of the required fields), and rejects every
  request whose message sequence has an element with the role developer, in both
  versions. The non-system partition of the reshaper is every message whose role is not
  system, so it would hold a developer message if one were given.
\<close>

theorem responses_schema_roles:
  "((\<forall>t\<in>set tools. valid_tool t) \<and> (\<forall>m\<in>set ms. role m \<noteq> Developer) \<longrightarrow>
      WebSearchResponsesSchema []
        (Some (enc_responses_params
                 \<lparr>rp_model = Gpt_4o, rp_tools = tools, rp_input = Inr ms\<rparr> :: 'n json)) =
        Inr \<lparr>rp_model = Gpt_4o, rp_tools = tools, rp_input = Inr ms\<rparr>) \<and>
   ((\<forall>m\<in>set ms. role m \<noteq> Developer) \<longrightarrow>
      WebSearchResponsesSchema_v100 []
        (Some (JObj [(''model'', JStr ''gpt-4o''), (''tools'', JArr []),
                     (''messages'', JArr (map enc_message ms))] :: 'n json)) =
        Inr (minimal_params ms None)) \<and>
   ((\<exists>m\<in>set ms. role m = Developer) \<longrightarrow>
      (\<forall>kvs :: (string \<times> 'n json) list.
         (map_of kvs ''input'' = Some (JArr (map enc_message ms)) \<longrightarrow>
            isl (WebSearchResponsesSchema [] (Some (JObj kvs)))) \<and>
         (map_of kvs ''messages'' = Some (JArr (map enc_message ms)) \<longrightarrow>
            isl (WebSearchResponsesSchema_v100 [] (Some (JObj kvs)))))) \<and>
   snd (processMessages ms) = nonSystem ms"
proof (intro conjI impI allI)
  assume "(\<forall>t\<in>set tools. valid_tool t) \<and> (\<forall>m\<in>set ms. role m \<noteq> Developer)"
  then have "valid_responses_params \<lparr>rp_model = Gpt_4o, rp_tools = tools, rp_input = Inr ms\<rparr>"
    by (simp add: valid_responses_params_def)
  then show "WebSearchResponsesSchema []
          (Some (enc_responses_params
                   \<lparr>rp_model = Gpt_4o, rp_tools = tools, rp_input = Inr ms\<rparr> :: 'n json)) =
        Inr \<lparr>rp_model = Gpt_4o, rp_tools = tools, rp_input = Inr ms\<rparr>"
    by (rule WebSearchResponsesSchema_enc)
next
  assume a: "\<forall>m\<in>set ms. role m \<noteq> Developer"
  show "WebSearchResponsesSchema_v100 []
          (Some (JObj [(''model'', JStr ''gpt-4o''), (''tools'', JArr []),
                       (''messages'', JArr (map enc_message ms))] :: 'n json)) =
        Inr (minimal_params ms None)"
    by (simp add: WebSearchResponsesSchema_v100_accepts [OF a] minimal_params_def)
next
  fix kvs :: "(string \<times> 'n json) list"
  assume d: "\<exists>m\<in>set ms. role m = Developer"
    and k: "map_of kvs ''input'' = Some (JArr (map enc_message ms))"
  show "isl (WebSearchResponsesSchema [] (Some (JObj kvs)))"
    by (rule WebSearchResponsesSchema_developer [OF d k])
next
  fix kvs :: "(string \<times> 'n json) list"
  assume d: "\<exists>m\<in>set ms. role m = Developer"
    and k: "map_of kvs ''messages'' = Some (JArr (map enc_message ms))"
  show "isl (WebSearchResponsesSchema_v100 [] (Some (JObj kvs)))"
    by (rule WebSearchResponsesSchema_v100_developer [OF d k])
next
  show "snd (processMessages ms) = nonSystem ms"
    by (simp add: processMessages_eq)
qed

theorem responses_schema_roles_witness:
  "WebSearchResponsesSchema []
     (Some (JObj [(''model'', JStr ''gpt-4o''),
                  (''tools'', JArr [JObj [(''type'', JStr ''web_search_preview''),
                                          (''search_context_size'', JStr ''low'')]]),
                  (''input'', JArr [JObj [(''role'', JStr ''system''),
                                          (''content'', JStr ''Be concise'')],
                                    JObj [(''role'', JStr ''user''),
                                          (''content'', JStr ''And tomorrow?'')]])]
            :: int json)) =
     Inr \<lparr>rp_model = Gpt_4o,
          rp_tools = [\<lparr>tool_type = Web_search_preview, tool_user_location = None,
                       tool_search_context_size = Some Low\<rparr>],
          rp_input = Inr [\<lparr>role = System, content = ''Be concise''\<rparr>,
                          \<lparr>role = User, content = ''And tomorrow?''\<rparr>]\<rparr> \<and>
   isl (WebSearchResponsesSchema_v100 []
     (Some (JObj [(''model'', JStr ''gpt-4o''), (''tools'', JArr []),
                  (''messages'', JArr [JObj [(''role'', JStr ''user''),
                                             (''content'', JStr ''Hello'')],
                                       JObj [(''role'', JStr ''developer''),
                                             (''content'', JStr ''Be concise'')]]),
                  (''temperature'', JNum 1)]
            :: int json)))"
proof -
  let ?ok = "[\<lparr>role = System, content = ''Be concise''\<rparr>,
              \<lparr>role = User, content = ''And tomorrow?''\<rparr>]"
  let ?tools = "[\<lparr>tool_type = Web_search_preview, tool_user_location = None,
                  tool_search_context_size = Some Low\<rparr>]"
  let ?dev = "[\<lparr>role = User, content = ''Hello''\<rparr>,
               \<lparr>role = Developer, content = ''Be concise''\<rparr>]"
  let ?kvs = "[(''model'', JStr ''gpt-4o''), (''tools'', JArr []),
               (''messages'', JArr (map enc_message ?dev)),
               (''temperature'', JNum 1)] :: (string \<times> int json) list"
  have a: "(\<forall>t\<in>set ?tools. valid_tool t) \<and> (\<forall>m\<in>set ?ok. role m \<noteq> Developer)"
    by (simp add: valid_tool_def)
  have d: "\<exists>m\<in>set ?dev. role m = Developer" by simp
  have k: "map_of ?kvs ''messages'' = Some (JArr (map enc_message ?dev))" by simp
  from responses_schema_roles [of ?tools ?ok, where ?'n = int] a
  have "WebSearchResponsesSchema []
          (Some (enc_responses_params
                   \<lparr>rp_model = Gpt_4o, rp_tools = ?tools, rp_input = Inr ?ok\<rparr> :: int json)) =
        Inr \<lparr>rp_model = Gpt_4o, rp_tools = ?tools, rp_input = Inr ?ok\<rparr>"
    by blast
  moreover from responses_schema_roles [of "[]" ?dev, where ?'n = int] d k
  have "isl (WebSearchResponsesSchema_v100 [] (Some (JObj ?kvs)))"
    by blast
  ultimately show ?thesis
    by (simp add: enc_message_def enc_responses_params_def enc_input_def enc_tool_def
          opt_field_def enc_search_context_size_def)
qed

subsection \<open>C10: an empty last user message\<close>

text \<open>
  Claim C10. For every conversation whose last user message has the empty string as
  content, the fallback runs although a user message exists: the input is the content of
  the last non-system message, and the context is the non-system messages strictly before
  that last one.
\<close>

theorem empty_last_user_message_falls_back:
  assumes "role u = User"
      and "\<forall>m\<in>set post. role m \<noteq> User"
      and "content u = ''''"
  shows "input (reshape (pre @ u # post)) = content (last (nonSystem (pre @ u # post))) \<and>
         previousMessages (reshape (pre @ u # post)) = butlast (nonSystem (pre @ u # post))"
  by (rule reshape_last_user_empty [OF assms])

theorem empty_last_user_message_falls_back_witness:
  "input (reshape [\<lparr>role = System, content = ''Be concise''\<rparr>,
                   \<lparr>role = User, content = ''Hello''\<rparr>,
                   \<lparr>role = User, content = ''''\<rparr>,
                   \<lparr>role = Assistant, content = ''Sunny.''\<rparr>]) = ''Sunny.'' \<and>
   previousMessages (reshape [\<lparr>role = System, content = ''Be concise''\<rparr>,
                              \<lparr>role = User, content = ''Hello''\<rparr>,
                              \<lparr>role = User, content = ''''\<rparr>,
                              \<lparr>role = Assistant, content = ''Sunny.''\<rparr>]) =
     [\<lparr>role = User, content = ''Hello''\<rparr>, \<lparr>role = User, content = ''''\<rparr>]"
proof -
  let ?pre = "[\<lparr>role = System, content = ''Be concise''\<rparr>, \<lparr>role = User, content = ''Hello''\<rparr>]"
  let ?u = "\<lparr>role = User, content = ''''\<rparr>"
  let ?post = "[\<lparr>role = Assistant, content = ''Sunny.''\<rparr>]"
  have a: "role ?u = User" by simp
  have b: "\<forall>m\<in>set ?post. role m \<noteq> User" by simp
  have c: "content ?u = ''''" by simp
  from empty_last_user_message_falls_back [OF a b c, of ?pre] show ?thesis
    by (simp add: nonSystem_def)
qed

end
